theory Spec2Isabelle
  imports Main "HOL-Library.Sublist" "HOL-Library.AList"
begin

section \<open>Reconciliation engine of the pcluster provider\<close>

text \<open>
  The embedding follows the revision of the controller that carries the dry-run probe
  (\<^verbatim>\<open>src/unnamed/part_000\<close>): \<^verbatim>\<open>execPcluster\<close>, \<^verbatim>\<open>execute\<close>, \<^verbatim>\<open>isUpToDate\<close>,
  \<^verbatim>\<open>Observe\<close>, \<^verbatim>\<open>Create\<close>, \<^verbatim>\<open>Update\<close>, \<^verbatim>\<open>Delete\<close>, \<^verbatim>\<open>getVEnvPath\<close>,
  \<^verbatim>\<open>getErrorStatus\<close>, \<^verbatim>\<open>createTempDir\<close>, \<^verbatim>\<open>writeConfigToFile\<close> and \<^verbatim>\<open>setStatus\<close>.
  A Go function returning \<^verbatim>\<open>(value, error)\<close> returns a pair whose second component is
  \<open>None\<close> for \<^verbatim>\<open>nil\<close>; a method that writes through a pointer returns the updated
  object next to its result; what the process can see and change outside its own
  variables (environment, file system, the commands it has run) is the \<open>world\<close>.
\<close>

subsection \<open>Values\<close>

type_synonym bytes = string

text \<open>\<^verbatim>\<open>errors.New(msg)\<close> is \<open>Err msg\<close>; \<^verbatim>\<open>fmt.Errorf("msg: %w", e)\<close> is \<open>Wrap msg e\<close>.\<close>

datatype error = Err string | Wrap string error

type_synonym errStatus = string
type_synonym PClusterStatus = string

definition clusterConfigFileName :: string where
  "clusterConfigFileName = ''cluster-config.yaml''"

definition errNotCluster :: string where
  "errNotCluster = ''managed resource is not a Cluster custom resource''"






definition CreateInProgress :: PClusterStatus where
  "CreateInProgress = ''CREATE_IN_PROGRESS''"

definition CreateFailed :: PClusterStatus where
  "CreateFailed = ''CREATE_FAILED''"

definition CreateComplete :: PClusterStatus where
  "CreateComplete = ''CREATE_COMPLETE''"

definition DeleteInProgress :: PClusterStatus where
  "DeleteInProgress = ''DELETE_IN_PROGRESS''"

definition DeleteFailed :: PClusterStatus where
  "DeleteFailed = ''DELETE_FAILED''"

definition DeleteComplete :: PClusterStatus where
  "DeleteComplete = ''DELETE_COMPLETE''"

definition UpdateInProgress :: PClusterStatus where
  "UpdateInProgress = ''UPDATE_IN_PROGRESS''"

definition UpdateComplete :: PClusterStatus where
  "UpdateComplete = ''UPDATE_COMPLETE''"

definition UpdateFailed :: PClusterStatus where
  "UpdateFailed = ''UPDATE_FAILED''"

definition errPclusterCliNoChange :: string where
  "errPclusterCliNoChange = ''Bad Request: No changes found in your cluster configuration.''"

definition errPClusterCliDryRun :: string where
  "errPClusterCliDryRun = ''Request would have succeeded, but DryRun flag is set.''"

definition errPClusterCliInProgress :: errStatus where
  "errPClusterCliInProgress = ''Cannot execute update while stack is in''"

definition errStatusNotFound :: errStatus where
  "errStatusNotFound = ''clusterNotFound''"

definition errStatusEmpty :: errStatus where
  "errStatusEmpty = ''emptyMessage''"

definition errStatusUpToDate :: errStatus where
  "errStatusUpToDate = ''clusterUpToDate''"

definition errStatusNotUpToDate :: errStatus where
  "errStatusNotUpToDate = ''clusterNotUpToDate''"

subsection \<open>Payload schemas of the tool\<close>

text \<open>
  The structs of the pcluster payloads. \<^verbatim>\<open>DescribeClusterOutput\<close> embeds
  \<^verbatim>\<open>OutputCluster\<close>; of its own fields the controller reads none, so only the string
  ones are kept. \<^verbatim>\<open>UpdateClusterOutput.ChangeSet\<close> is read by \<^verbatim>\<open>Update\<close> for a log line
  only; its element type is not declared in the sources at hand and is kept opaque.
\<close>

record SchedulerType =
  SchedulerType_type :: string

record OutputCluster =
  oc_ClusterName :: string
  oc_CloudformationStackStatus :: string
  oc_CloudformationStackArn :: string
  oc_ClusterStatus :: string
  oc_Region :: string
  oc_Version :: string
  oc_Scheduler :: SchedulerType

record DescribeClusterOutput =
  do_OutputCluster :: OutputCluster
  do_CreationTime :: string
  do_ComputeFleetStatus :: string
  do_LastUpdatedTime :: string

record CreateClusterOutput =
  co_Cluster :: OutputCluster

record DeleteClusterOutput =
  dl_Cluster :: OutputCluster

record UpdateClusterOutput =
  uo_Cluster :: OutputCluster
  uo_ChangeSet :: "string list"

record errorOutput =
  Message :: string

definition zero_SchedulerType :: SchedulerType where
  "zero_SchedulerType = \<lparr>SchedulerType_type = []\<rparr>"

definition zero_OutputCluster :: OutputCluster where
  "zero_OutputCluster =
     \<lparr>oc_ClusterName = [], oc_CloudformationStackStatus = [], oc_CloudformationStackArn = [],
      oc_ClusterStatus = [], oc_Region = [], oc_Version = [], oc_Scheduler = zero_SchedulerType\<rparr>"

definition zero_DescribeClusterOutput :: DescribeClusterOutput where
  "zero_DescribeClusterOutput =
     \<lparr>do_OutputCluster = zero_OutputCluster, do_CreationTime = [],
      do_ComputeFleetStatus = [], do_LastUpdatedTime = []\<rparr>"

definition zero_CreateClusterOutput :: CreateClusterOutput where
  "zero_CreateClusterOutput = \<lparr>co_Cluster = zero_OutputCluster\<rparr>"

definition zero_DeleteClusterOutput :: DeleteClusterOutput where
  "zero_DeleteClusterOutput = \<lparr>dl_Cluster = zero_OutputCluster\<rparr>"

definition zero_UpdateClusterOutput :: UpdateClusterOutput where
  "zero_UpdateClusterOutput = \<lparr>uo_Cluster = zero_OutputCluster, uo_ChangeSet = []\<rparr>"

definition zero_errorOutput :: errorOutput where
  "zero_errorOutput = \<lparr>Message = []\<rparr>"

text \<open>
  \<^verbatim>\<open>encoding/json\<close> is not code of the controller: \<^verbatim>\<open>json.Unmarshal(data, &v)\<close> is a
  parameter, one function for each target type. It takes the bytes and the target as it is
  before the call and returns the error and the target as the call leaves it (Go fills in
  what it can even when it reports an error).
\<close>

record json =
  Unmarshal_errorOutput :: "bytes \<Rightarrow> errorOutput \<Rightarrow> error option \<times> errorOutput"
  Unmarshal_OutputCluster :: "bytes \<Rightarrow> OutputCluster \<Rightarrow> error option \<times> OutputCluster"
  Unmarshal_DescribeClusterOutput ::
    "bytes \<Rightarrow> DescribeClusterOutput \<Rightarrow> error option \<times> DescribeClusterOutput"
  Unmarshal_CreateClusterOutput ::
    "bytes \<Rightarrow> CreateClusterOutput \<Rightarrow> error option \<times> CreateClusterOutput"
  Unmarshal_UpdateClusterOutput ::
    "bytes \<Rightarrow> UpdateClusterOutput \<Rightarrow> error option \<times> UpdateClusterOutput"
  Unmarshal_DeleteClusterOutput ::
    "bytes \<Rightarrow> DeleteClusterOutput \<Rightarrow> error option \<times> DeleteClusterOutput"

subsection \<open>Error classification\<close>

text \<open>\<^verbatim>\<open>fmt.Sprintf("Cluster '%s' does not exist", clusterName)\<close>.\<close>

definition notExistPrefix :: "string \<Rightarrow> string" where
  "notExistPrefix clusterName =
     ''Cluster '' @ [CHR 0x27] @ clusterName @ [CHR 0x27] @ '' does not exist''"

text \<open>\<^verbatim>\<open>getErrorStatus\<close>; \<^verbatim>\<open>strings.HasPrefix(s, p)\<close> is \<open>prefix p s\<close>.\<close>

definition getErrorStatus :: "json \<Rightarrow> bytes \<Rightarrow> string \<Rightarrow> errStatus \<times> error option" where
  "getErrorStatus J cmdOutput clusterName =
     (case Unmarshal_errorOutput J cmdOutput zero_errorOutput of
        (Some err, pErr) \<Rightarrow> ([], Some err)
      | (None, pErr) \<Rightarrow>
          (let msg = Message pErr in
           if prefix (notExistPrefix clusterName) msg then (errStatusNotFound, None)
           else if msg = errPclusterCliNoChange \<or> prefix errPClusterCliInProgress msg
             then (errStatusUpToDate, None)
           else if msg = errPClusterCliDryRun then (errStatusNotUpToDate, None)
           else (errStatusEmpty, None)))"

subsection \<open>The managed resource\<close>

text \<open>
  The custom resource, as far as the controller reads or writes it: the object name, the
  parameters (\<^verbatim>\<open>Spec.ForProvider\<close>), the observation (\<^verbatim>\<open>Status.AtProvider\<close>) and the
  conditions (\<^verbatim>\<open>Status.Conditions\<close>). A condition is kept without its transition time.
  \<^verbatim>\<open>SetConditions\<close>, \<^verbatim>\<open>GetCondition\<close>, \<^verbatim>\<open>Available\<close> and \<^verbatim>\<open>Unavailable\<close> belong to
  crossplane-runtime: an entry of the same type is replaced, a new type is appended.
\<close>

datatype ConditionType = TypeReady | TypeSynced

datatype ConditionStatus = ConditionTrue | ConditionFalse | ConditionUnknown

record Condition =
  cond_Type :: ConditionType
  cond_Status :: ConditionStatus
  cond_Reason :: string

definition Available :: Condition where
  "Available = \<lparr>cond_Type = TypeReady, cond_Status = ConditionTrue, cond_Reason = ''Available''\<rparr>"

definition Unavailable :: Condition where
  "Unavailable =
     \<lparr>cond_Type = TypeReady, cond_Status = ConditionFalse, cond_Reason = ''Unavailable''\<rparr>"

record ClusterParameters =
  Region :: string
  ClusterConfiguration :: string

record ClusterObservation =
  ClusterName :: string
  CloudformationStackArn :: string
  ClusterStatus :: string
  LastUpdatedTime :: string
  Scheduler :: SchedulerType

record Cluster =
  Name :: string
  ForProvider :: ClusterParameters
  AtProvider :: ClusterObservation
  Conditions :: "Condition list"

text \<open>\<^verbatim>\<open>resource.Managed\<close>: the type assertion \<^verbatim>\<open>mg.(*v1alpha1.Cluster)\<close> can fail.\<close>

datatype Managed = IsCluster Cluster | NotCluster

definition SetCondition :: "Condition list \<Rightarrow> Condition \<Rightarrow> Condition list" where
  "SetCondition cs new =
     (if \<exists>c \<in> set cs. cond_Type c = cond_Type new
      then map (\<lambda>c. if cond_Type c = cond_Type new then new else c) cs
      else cs @ [new])"

definition SetConditions :: "Cluster \<Rightarrow> Condition list \<Rightarrow> Cluster" where
  "SetConditions cr news = cr\<lparr>Conditions := foldl SetCondition (Conditions cr) news\<rparr>"

definition GetCondition :: "Cluster \<Rightarrow> ConditionType \<Rightarrow> Condition" where
  "GetCondition cr ct =
     (case filter (\<lambda>c. cond_Type c = ct) (Conditions cr) of
        [] \<Rightarrow> \<lparr>cond_Type = ct, cond_Status = ConditionUnknown, cond_Reason = []\<rparr>
      | c # _ \<Rightarrow> c)"

text \<open>\<^verbatim>\<open>setStatus\<close>.\<close>

definition setStatus :: "OutputCluster \<Rightarrow> Cluster \<Rightarrow> Cluster" where
  "setStatus output cluster =
     cluster\<lparr>AtProvider := (AtProvider cluster)
       \<lparr>ClusterStatus := oc_ClusterStatus output,
        CloudformationStackArn := oc_CloudformationStackArn output,
        Scheduler := (Scheduler (AtProvider cluster))
          \<lparr>SchedulerType_type := SchedulerType_type (oc_Scheduler output)\<rparr>,
        ClusterName := oc_ClusterName output\<rparr>\<rparr>"

record ExternalObservation =
  ResourceExists :: bool
  ResourceUpToDate :: bool

definition zero_ExternalObservation :: ExternalObservation where
  "zero_ExternalObservation = \<lparr>ResourceExists = False, ResourceUpToDate = False\<rparr>"

record ExternalCreation =
  ec_ConnectionDetails :: "(string \<times> bytes) list"

record ExternalUpdate =
  eu_ConnectionDetails :: "(string \<times> bytes) list"

subsection \<open>The process and its surroundings\<close>

text \<open>
  One external command as the executor receives it: the executable, its arguments, and
  the environment and working directory set on the command (\<^verbatim>\<open>SetEnv\<close>, \<^verbatim>\<open>SetDir\<close>).
\<close>

record invocation =
  cmd :: string
  args :: "string list"
  cmd_env :: "string list"
  cmd_dir :: string

text \<open>
  The executor (\<^verbatim>\<open>k8sexec.Interface\<close>): what \<^verbatim>\<open>CombinedOutput\<close> returns for a command,
  given the commands run before it. Any behaviour of the tool is such a function; the
  scripted executor of the tests answers by position.
\<close>

type_synonym executor = "invocation list \<Rightarrow> invocation \<Rightarrow> bytes \<times> error option"

text \<open>
  Calls of package \<^verbatim>\<open>os\<close> that change the file system can fail for reasons outside
  the model (permissions, a full disk, a busy directory): \<open>fault\<close> says which do, and
  with what error. \<open>random\<close> is the sequence of suffixes \<^verbatim>\<open>os.MkdirTemp\<close> draws.
\<close>

datatype oscall = OsMkdir string | OsCreate string | OsWrite string | OsRemoveAll string

record world =
  environ :: "(string \<times> string) list"
  dirs :: "string set"
  files :: "string \<rightharpoonup> bytes"
  calls :: "invocation list"
  fault :: "oscall \<Rightarrow> error option"
  random :: "string list"

definition os_LookupEnv :: "string \<Rightarrow> world \<Rightarrow> string option" where
  "os_LookupEnv key w = map_of (environ w) key"

definition os_Getenv :: "string \<Rightarrow> world \<Rightarrow> string" where
  "os_Getenv key w = (case os_LookupEnv key w of None \<Rightarrow> [] | Some v \<Rightarrow> v)"

definition os_Environ :: "world \<Rightarrow> string list" where
  "os_Environ w = map (\<lambda>(k, v). k @ ''='' @ v) (environ w)"

text \<open>
  \<^verbatim>\<open>os.Setenv\<close> writes the environment of the whole process. It refuses an empty key, a
  key with \<^verbatim>\<open>=\<close> or a NUL byte, and a value with a NUL byte.
\<close>

definition os_Setenv :: "string \<Rightarrow> string \<Rightarrow> world \<Rightarrow> error option \<times> world" where
  "os_Setenv key val w =
     (if key = [] \<or> CHR ''='' \<in> set key \<or> CHR 0x00 \<in> set key \<or> CHR 0x00 \<in> set val
      then (Some (Err ''setenv: invalid argument''), w)
      else (None, w\<lparr>environ := AList.update key val (environ w)\<rparr>))"

definition path_exists :: "world \<Rightarrow> string \<Rightarrow> bool" where
  "path_exists w p = (p \<in> dirs w \<or> files w p \<noteq> None)"

definition os_Stat :: "string \<Rightarrow> world \<Rightarrow> error option" where
  "os_Stat p w = (if path_exists w p then None else Some (Err ''stat: no such file or directory''))"

definition os_TempDir :: "world \<Rightarrow> string" where
  "os_TempDir w = (let d = os_Getenv ''TMPDIR'' w in if d = [] then ''/tmp'' else d)"

definition prefixAndSuffix :: "string \<Rightarrow> (string \<times> string) \<times> error option" where
  "prefixAndSuffix pattern =
     (if CHR ''/'' \<in> set pattern
        then (([], []), Some (Err ''pattern contains path separator''))
      else if CHR ''*'' \<in> set pattern
        then ((rev (tl (dropWhile (\<lambda>ch. ch \<noteq> CHR ''*'') (rev pattern))),
               rev (takeWhile (\<lambda>ch. ch \<noteq> CHR ''*'') (rev pattern))), None)
      else ((pattern, []), None))"

definition joinPath :: "string \<Rightarrow> string \<Rightarrow> string" where
  "joinPath d n = (if d \<noteq> [] \<and> last d = CHR ''/'' then d @ n else d @ ''/'' @ n)"

text \<open>The retry loop of \<^verbatim>\<open>os.MkdirTemp\<close>: a name that exists is skipped.\<close>

fun nextFree :: "world \<Rightarrow> string \<Rightarrow> string \<Rightarrow> string list \<Rightarrow> (string \<times> string list) option" where
  "nextFree w pre suf [] = None"
| "nextFree w pre suf (r # rs) =
     (if path_exists w (pre @ r @ suf) then nextFree w pre suf rs else Some (pre @ r @ suf, rs))"

definition os_MkdirTemp :: "string \<Rightarrow> world \<Rightarrow> (string \<times> error option) \<times> world" where
  "os_MkdirTemp pattern w =
     (case prefixAndSuffix pattern of
        (_, Some err) \<Rightarrow> (([], Some err), w)
      | ((pre, suf), None) \<Rightarrow>
          (case fault w (OsMkdir pattern) of
             Some err \<Rightarrow> (([], Some err), w)
           | None \<Rightarrow>
               (case nextFree w (joinPath (os_TempDir w) pre) suf (random w) of
                  None \<Rightarrow> (([], Some (Err ''mkdir: file exists'')), w\<lparr>random := []\<rparr>)
                | Some (name, rs) \<Rightarrow>
                    ((name, None), w\<lparr>dirs := insert name (dirs w), random := rs\<rparr>))))"

definition os_Create :: "string \<Rightarrow> world \<Rightarrow> error option \<times> world" where
  "os_Create p w =
     (case fault w (OsCreate p) of
        Some err \<Rightarrow> (Some err, w)
      | None \<Rightarrow> (None, w\<lparr>files := (files w)(p \<mapsto> [])\<rparr>))"

text \<open>\<^verbatim>\<open>File.Write\<close> on the file just created: the content becomes the bytes written.\<close>

definition os_Write :: "string \<Rightarrow> bytes \<Rightarrow> world \<Rightarrow> error option \<times> world" where
  "os_Write p b w =
     (case fault w (OsWrite p) of
        Some err \<Rightarrow> (Some err, w)
      | None \<Rightarrow> (None, w\<lparr>files := (files w)(p \<mapsto> b)\<rparr>))"

text \<open>
  \<^verbatim>\<open>os.RemoveAll\<close> removes the path and everything below it, or fails. Its only caller
  drops the error it returns (\<^verbatim>\<open>defer os.RemoveAll(dir)\<close>), so the world is all that is
  returned; a removal that fails leaves the path in place, and here what lies below it
  too.
\<close>

definition within :: "string \<Rightarrow> string \<Rightarrow> bool" where
  "within d p = (p = d \<or> prefix (d @ ''/'') p)"

definition os_RemoveAll :: "string \<Rightarrow> world \<Rightarrow> world" where
  "os_RemoveAll d w =
     (case fault w (OsRemoveAll d) of
        Some err \<Rightarrow> w
      | None \<Rightarrow>
          w\<lparr>dirs := {p \<in> dirs w. \<not> within d p},
            files := (\<lambda>p. if within d p then None else files w p)\<rparr>)"

subsection \<open>The client and its operations\<close>

text \<open>
  The struct \<^verbatim>\<open>external\<close>. Its logger has no part in any result: the
  \<^verbatim>\<open>c.logger.Debug\<close> and \<^verbatim>\<open>fmt.Printf\<close> lines are left out.
\<close>

record external =
  dir :: string
  env :: "string list"
  path :: string
  executor :: executor

text \<open>\<^verbatim>\<open>execPcluster\<close>: sets \<^verbatim>\<open>PATH\<close> of the process, then runs the command.\<close>

definition execPcluster ::
  "external \<Rightarrow> Cluster \<Rightarrow> string list \<Rightarrow> world \<Rightarrow> (bytes \<times> error option) \<times> world" where
  "execPcluster c cr as w =
     (case os_Setenv ''PATH'' (path c) w of
        (Some err, w1) \<Rightarrow> (([], Some (Wrap ''failed to set PATH'' err)), w1)
      | (None, w1) \<Rightarrow>
          (let command = \<lparr>cmd = ''pcluster'', args = as, cmd_env = env c, cmd_dir = dir c\<rparr>
           in (executor c (calls w1) command, w1\<lparr>calls := calls w1 @ [command]\<rparr>)))"

text \<open>\<^verbatim>\<open>createTempDir\<close>.\<close>

definition createTempDir :: "string \<Rightarrow> world \<Rightarrow> (string \<times> error option) \<times> world" where
  "createTempDir pre w =
     (case os_MkdirTemp pre w of
        ((d, Some err), w1) \<Rightarrow> (([], Some (Wrap ''failed to create tmp dir'' err)), w1)
      | ((d, None), w1) \<Rightarrow> ((d, None), w1))"

text \<open>\<^verbatim>\<open>writeConfigToFile\<close>; the deferred \<^verbatim>\<open>Close\<close> changes nothing the model holds.\<close>

definition writeConfigToFile :: "string \<Rightarrow> string \<Rightarrow> world \<Rightarrow> error option \<times> world" where
  "writeConfigToFile input filePath w =
     (case os_Create filePath w of
        (Some err, w1) \<Rightarrow> (Some (Wrap ''failed to create config file'' err), w1)
      | (None, w1) \<Rightarrow>
          (case os_Write filePath input w1 of
             (Some err, w2) \<Rightarrow> (Some (Wrap ''failed to write to config file'' err), w2)
           | (None, w2) \<Rightarrow> (None, w2)))"

text \<open>
  \<^verbatim>\<open>execute\<close>. The deferred \<^verbatim>\<open>os.RemoveAll(dir)\<close> runs on every return that follows the
  creation of the directory, and what it returns is dropped; \<^verbatim>\<open>c.dir\<close> keeps the name
  afterwards.
\<close>

definition execute ::
  "external \<Rightarrow> Cluster \<Rightarrow> string list \<Rightarrow> world
     \<Rightarrow> (bytes \<times> error option) \<times> external \<times> world" where
  "execute c cr as w =
     (case createTempDir (Name cr) w of
        ((d, Some err), w1) \<Rightarrow> (([], Some err), c, w1)
      | ((d, None), w1) \<Rightarrow>
          (let c1 = c\<lparr>dir := d\<rparr> in
           case writeConfigToFile (ClusterConfiguration (ForProvider cr))
                  (d @ ''/'' @ clusterConfigFileName) w1 of
             (Some err, w2) \<Rightarrow> (([], Some err), c1, os_RemoveAll d w2)
           | (None, w2) \<Rightarrow>
               (case execPcluster c1 cr as w2 of
                  (res, w3) \<Rightarrow> (res, c1, os_RemoveAll d w3))))"

text \<open>The argument list of the dry-run probe, as \<^verbatim>\<open>isUpToDate\<close> builds it.\<close>

definition probeArgs :: "Cluster \<Rightarrow> string list" where
  "probeArgs cr =
     [''update-cluster'', ''--dryrun'', ''true'', ''--cluster-name'', Name cr,
      ''--cluster-configuration'', clusterConfigFileName]"

text \<open>\<^verbatim>\<open>isUpToDate\<close>.\<close>

definition isUpToDate ::
  "json \<Rightarrow> external \<Rightarrow> Cluster \<Rightarrow> world \<Rightarrow> (bool \<times> error option) \<times> external \<times> world" where
  "isUpToDate J c cr w =
     (case execute c cr (probeArgs cr) w of
        ((output, err), c1, w1) \<Rightarrow>
          if err \<noteq> None \<and> length output > 0 then
            (case getErrorStatus J output (Name cr) of
               (status, Some sErr) \<Rightarrow> ((False, Some sErr), c1, w1)
             | (status, None) \<Rightarrow>
                 if status = errStatusUpToDate then ((True, None), c1, w1)
                 else ((False, None), c1, w1))
          else ((False, err), c1, w1))"

text \<open>
  The two \<^verbatim>\<open>json.Unmarshal\<close> calls of \<^verbatim>\<open>Observe\<close>: the first fills the embedded
  \<^verbatim>\<open>OutputCluster\<close> and its error is overwritten by the second, which decodes into the
  whole struct.
\<close>

definition unmarshalDescribe :: "json \<Rightarrow> bytes \<Rightarrow> DescribeClusterOutput \<times> error option" where
  "unmarshalDescribe J output =
     (case Unmarshal_OutputCluster J output zero_OutputCluster of
        (err1, oc) \<Rightarrow>
          (case Unmarshal_DescribeClusterOutput J output
                  (zero_DescribeClusterOutput\<lparr>do_OutputCluster := oc\<rparr>) of
             (err2, describeOutput) \<Rightarrow> (describeOutput, err2)))"

text \<open>The \<^verbatim>\<open>switch describeOutput.ClusterStatus\<close> of \<^verbatim>\<open>Observe\<close>; it has no default.\<close>

definition observeSwitch ::
  "PClusterStatus \<Rightarrow> ExternalObservation \<Rightarrow> Cluster \<Rightarrow> ExternalObservation \<times> Cluster" where
  "observeSwitch st eo cr =
     (if st = CreateInProgress \<or> st = UpdateInProgress \<or> st = DeleteInProgress
        then (eo\<lparr>ResourceExists := True\<rparr>, cr)
      else if st = CreateComplete \<or> st = UpdateComplete
        then (eo\<lparr>ResourceExists := True\<rparr>, SetConditions cr [Available])
      else if st = CreateFailed \<or> st = DeleteComplete
        then (eo\<lparr>ResourceExists := False\<rparr>, cr)
      else if st = UpdateFailed \<or> st = DeleteFailed
        then (eo\<lparr>ResourceExists := True\<rparr>, SetConditions cr [Unavailable])
      else (eo, cr))"

definition describeArgs :: "Cluster \<Rightarrow> string list" where
  "describeArgs cr = [''describe-cluster'', ''--cluster-name'', Name cr]"

text \<open>\<^verbatim>\<open>Observe\<close>.\<close>

definition Observe ::
  "json \<Rightarrow> external \<Rightarrow> Managed \<Rightarrow> world
     \<Rightarrow> (ExternalObservation \<times> error option) \<times> external \<times> Managed \<times> world" where
  "Observe J c mg w =
     (case mg of
        NotCluster \<Rightarrow> ((zero_ExternalObservation, Some (Err errNotCluster)), c, mg, w)
      | IsCluster cr \<Rightarrow>
          (case execPcluster c cr (describeArgs cr) w of
             ((output, Some err), w1) \<Rightarrow>
               (case getErrorStatus J output (Name cr) of
                  (status, _) \<Rightarrow>
                    if status = errStatusNotFound
                    then ((zero_ExternalObservation\<lparr>ResourceExists := False\<rparr>, None), c, mg, w1)
                    else ((zero_ExternalObservation,
                           Some (Wrap (''failed to run pcluster command: '' @ output) err)),
                          c, mg, w1))
           | ((output, None), w1) \<Rightarrow>
               (case unmarshalDescribe J output of
                  (describeOutput, Some err) \<Rightarrow>
                    ((zero_ExternalObservation,
                      Some (Wrap ''failed to unmarshal describe response'' err)), c, mg, w1)
                | (describeOutput, None) \<Rightarrow>
                    (case isUpToDate J c cr w1 of
                       ((upToDate, Some err), c2, w2) \<Rightarrow>
                         ((zero_ExternalObservation,
                           Some (Wrap ''could not determine if resource is up-to-date'' err)),
                          c2, mg, w2)
                     | ((upToDate, None), c2, w2) \<Rightarrow>
                         (case observeSwitch (oc_ClusterStatus (do_OutputCluster describeOutput))
                                 (zero_ExternalObservation\<lparr>ResourceUpToDate := upToDate\<rparr>) cr of
                            (eo, cr1) \<Rightarrow>
                              ((eo, None), c2,
                               IsCluster (setStatus (do_OutputCluster describeOutput) cr1),
                               w2))))))"

definition createArgs :: "Cluster \<Rightarrow> string list" where
  "createArgs cr =
     [''create-cluster'', ''--cluster-configuration'', clusterConfigFileName,
      ''--cluster-name'', Name cr, ''--region'', Region (ForProvider cr)]"

definition updateArgs :: "Cluster \<Rightarrow> string list" where
  "updateArgs cr =
     [''update-cluster'', ''--cluster-configuration'', clusterConfigFileName,
      ''--cluster-name'', Name cr, ''--region'', Region (ForProvider cr)]"

definition deleteArgs :: "Cluster \<Rightarrow> string list" where
  "deleteArgs cr =
     [''delete-cluster'', ''--cluster-name'', Name cr, ''--region'', Region (ForProvider cr)]"

definition zero_ExternalCreation :: ExternalCreation where
  "zero_ExternalCreation = \<lparr>ec_ConnectionDetails = []\<rparr>"

definition zero_ExternalUpdate :: ExternalUpdate where
  "zero_ExternalUpdate = \<lparr>eu_ConnectionDetails = []\<rparr>"


text \<open>\<^verbatim>\<open>Update\<close>: the decoded output is used for a log line only.\<close>

definition Update ::
  "json \<Rightarrow> external \<Rightarrow> Managed \<Rightarrow> world
     \<Rightarrow> (ExternalUpdate \<times> error option) \<times> external \<times> Managed \<times> world" where
  "Update J c mg w =
     (case mg of
        NotCluster \<Rightarrow> ((zero_ExternalUpdate, Some (Err errNotCluster)), c, mg, w)
      | IsCluster cr \<Rightarrow>
          (case execute c cr (updateArgs cr) w of
             ((output, Some err), c1, w1) \<Rightarrow> ((zero_ExternalUpdate, Some err), c1, mg, w1)
           | ((output, None), c1, w1) \<Rightarrow>
               (case Unmarshal_UpdateClusterOutput J output zero_UpdateClusterOutput of
                  (Some err, updateOutput) \<Rightarrow>
                    ((zero_ExternalUpdate,
                      Some (Wrap ''failed to unmarshal update output'' err)), c1, mg, w1)
                | (None, updateOutput) \<Rightarrow>
                    ((\<lparr>eu_ConnectionDetails = []\<rparr>, None), c1, mg, w1))))"


subsection \<open>Building the client\<close>




section \<open>The specification's vocabulary\<close>

text \<open>
  The closed enumerations of the specification and their spelling in the code, where both
  are plain strings.
\<close>

datatype RemoteLifecycleStatus =
    RCreateInProgress | RCreateComplete | RCreateFailed
  | RUpdateInProgress | RUpdateComplete | RUpdateFailed
  | RDeleteInProgress | RDeleteComplete | RDeleteFailed

fun statusString :: "RemoteLifecycleStatus \<Rightarrow> PClusterStatus" where
  "statusString RCreateInProgress = CreateInProgress"
| "statusString RCreateComplete = CreateComplete"
| "statusString RCreateFailed = CreateFailed"
| "statusString RUpdateInProgress = UpdateInProgress"
| "statusString RUpdateComplete = UpdateComplete"
| "statusString RUpdateFailed = UpdateFailed"
| "statusString RDeleteInProgress = DeleteInProgress"
| "statusString RDeleteComplete = DeleteComplete"
| "statusString RDeleteFailed = DeleteFailed"

datatype ErrorClassification = NotFound | UpToDate | NotUpToDate | EmptyOrUnclassified

fun classString :: "ErrorClassification \<Rightarrow> errStatus" where
  "classString NotFound = errStatusNotFound"
| "classString UpToDate = errStatusUpToDate"
| "classString NotUpToDate = errStatusNotUpToDate"
| "classString EmptyOrUnclassified = errStatusEmpty"

text \<open>
  The table of the state machine, in the specification's words: the column
  \<open>available\<close> reads unchanged, true, false, or is left open.
\<close>

datatype availability = Unchanged | Becomes bool | Open

fun lifecycleTable :: "RemoteLifecycleStatus \<Rightarrow> bool \<times> availability" where
  "lifecycleTable RCreateInProgress = (True, Unchanged)"
| "lifecycleTable RUpdateInProgress = (True, Unchanged)"
| "lifecycleTable RDeleteInProgress = (True, Unchanged)"
| "lifecycleTable RCreateComplete = (True, Becomes True)"
| "lifecycleTable RUpdateComplete = (True, Becomes True)"
| "lifecycleTable RCreateFailed = (False, Open)"
| "lifecycleTable RDeleteComplete = (False, Open)"
| "lifecycleTable RUpdateFailed = (True, Becomes False)"
| "lifecycleTable RDeleteFailed = (True, Becomes False)"

text \<open>Availability is the status of the resource's \<^verbatim>\<open>Ready\<close> condition.\<close>

definition ready :: "Cluster \<Rightarrow> ConditionStatus" where
  "ready cr = cond_Status (GetCondition cr TypeReady)"

fun availabilityMet :: "availability \<Rightarrow> Cluster \<Rightarrow> Cluster \<Rightarrow> bool" where
  "availabilityMet Unchanged before after = (Conditions after = Conditions before)"
| "availabilityMet (Becomes True) before after = (ready after = ConditionTrue)"
| "availabilityMet (Becomes False) before after = (ready after = ConditionFalse)"
| "availabilityMet Open before after = True"

text \<open>
  The classifier in the specification's words: an ordered list of rules on the message,
  the first that matches decides, and a message that matches none is unclassified.
\<close>

definition classifyRules :: "string \<Rightarrow> ((string \<Rightarrow> bool) \<times> ErrorClassification) list" where
  "classifyRules resourceName =
     [(\<lambda>m. prefix (''Cluster '' @ [CHR 0x27] @ resourceName @ [CHR 0x27] @ '' does not exist'') m,
       NotFound),
      (\<lambda>m. m = errPclusterCliNoChange \<or> prefix errPClusterCliInProgress m, UpToDate),
      (\<lambda>m. m = errPClusterCliDryRun, NotUpToDate)]"

fun firstMatch :: "(('a \<Rightarrow> bool) \<times> 'b) list \<Rightarrow> 'a \<Rightarrow> 'b \<Rightarrow> 'b" where
  "firstMatch [] x dflt = dflt"
| "firstMatch ((p, r) # rules) x dflt = (if p x then r else firstMatch rules x dflt)"

definition classify :: "string \<Rightarrow> string \<Rightarrow> ErrorClassification" where
  "classify message resourceName =
     firstMatch (classifyRules resourceName) message EmptyOrUnclassified"


section \<open>A scripted run\<close>

text \<open>
  Concrete inputs in the manner of the controller's tests: the cluster \<^verbatim>\<open>test\<close>, an
  executor that answers from a script, payloads of the tool, and a decoder that knows
  these payloads.
\<close>

definition scripted :: "(bytes \<times> error option) list \<Rightarrow> executor" where
  "scripted script hist command =
     (if length hist < length script then script ! length hist
      else ([], Some (Err ''no scripted result left'')))"

definition testCluster :: Cluster where
  "testCluster =
     \<lparr>Name = ''test'',
      ForProvider = \<lparr>Region = ''us-eastish'', ClusterConfiguration = ''Image: alinux2''\<rparr>,
      AtProvider = \<lparr>ClusterName = [], CloudformationStackArn = [], ClusterStatus = [],
                    LastUpdatedTime = [], Scheduler = zero_SchedulerType\<rparr>,
      Conditions = []\<rparr>"

definition testClient :: "(bytes \<times> error option) list \<Rightarrow> external" where
  "testClient script = \<lparr>dir = [], env = [], path = [], executor = scripted script\<rparr>"

definition testWorld :: world where
  "testWorld =
     \<lparr>environ = [(''PATH'', ''/usr/bin'')], dirs = {''/tmp''}, files = Map.empty,
      calls = [], fault = (\<lambda>call. None), random = [''42'']\<rparr>"

definition exitError :: error where
  "exitError = Err ''exit status 1''"

definition describeComplete :: bytes where
  \<open>describeComplete = ''{"clusterName": "test", "clusterStatus": "CREATE_COMPLETE"}''\<close>

definition describeFailed :: bytes where
  \<open>describeFailed = ''{"clusterName": "test", "clusterStatus": "CREATE_FAILED"}''\<close>

definition updateStarted :: bytes where
  \<open>updateStarted = ''{"cluster": {"clusterName": "test", "clusterStatus": "UPDATE_IN_PROGRESS"}}''\<close>

definition createStarted :: bytes where
  \<open>createStarted = ''{"cluster": {"clusterName": "test", "clusterStatus": "CREATE_IN_PROGRESS"}}''\<close>

definition deleteStarted :: bytes where
  \<open>deleteStarted = ''{"cluster": {"clusterName": "test", "clusterStatus": "DELETE_IN_PROGRESS"}}''\<close>

definition msgNoChange :: bytes where
  \<open>msgNoChange = ''{"message": "Bad Request: No changes found in your cluster configuration."}''\<close>

definition msgDryRun :: bytes where
  \<open>msgDryRun = ''{"message": "Request would have succeeded, but DryRun flag is set."}''\<close>

definition msgNotFound :: bytes where
  \<open>msgNotFound = ''{"message": "Cluster 'test' does not exist"}''\<close>

definition msgNotFoundProd :: bytes where
  \<open>msgNotFoundProd = ''{"message": "Cluster 'prod' does not exist"}''\<close>

definition msgThrottled :: bytes where
  \<open>msgThrottled = ''{"message": "Rate exceeded"}''\<close>

definition msgQuoted :: bytes where
  \<open>msgQuoted = ''{"message": "Cluster 'test' does not exist' does not exist"}''\<close>

definition syntaxError :: error where
  "syntaxError = Err ''invalid character''"

definition clusterOf :: "string \<Rightarrow> OutputCluster" where
  "clusterOf st = zero_OutputCluster\<lparr>oc_ClusterName := ''test'', oc_ClusterStatus := st\<rparr>"

definition testJson :: json where
  "testJson =
     \<lparr>Unmarshal_errorOutput = (\<lambda>b v.
        if b = msgNoChange then (None, v\<lparr>Message := errPclusterCliNoChange\<rparr>)
        else if b = msgDryRun then (None, v\<lparr>Message := errPClusterCliDryRun\<rparr>)
        else if b = msgNotFound then (None, v\<lparr>Message := notExistPrefix ''test''\<rparr>)
        else if b = msgNotFoundProd then (None, v\<lparr>Message := notExistPrefix ''prod''\<rparr>)
        else if b = msgThrottled then (None, v\<lparr>Message := ''Rate exceeded''\<rparr>)
        else if b = msgQuoted
          then (None, v\<lparr>Message := notExistPrefix ''test'' @ [CHR 0x27] @ '' does not exist''\<rparr>)
        else (Some syntaxError, v)),
      Unmarshal_OutputCluster = (\<lambda>b v.
        if b = describeComplete then (None, clusterOf CreateComplete)
        else if b = describeFailed then (None, clusterOf CreateFailed)
        else (Some syntaxError, v)),
      Unmarshal_DescribeClusterOutput = (\<lambda>b v.
        if b = describeComplete \<or> b = describeFailed then (None, v) else (Some syntaxError, v)),
      Unmarshal_CreateClusterOutput = (\<lambda>b v.
        if b = createStarted then (None, v\<lparr>co_Cluster := clusterOf CreateInProgress\<rparr>)
        else (Some syntaxError, v)),
      Unmarshal_UpdateClusterOutput = (\<lambda>b v.
        if b = updateStarted then (None, v\<lparr>uo_Cluster := clusterOf UpdateInProgress\<rparr>)
        else (Some syntaxError, v)),
      Unmarshal_DeleteClusterOutput = (\<lambda>b v.
        if b = deleteStarted then (None, v\<lparr>dl_Cluster := clusterOf DeleteInProgress\<rparr>)
        else (Some syntaxError, v))\<rparr>"



section \<open>Properties\<close>

lemmas status_defs =
  CreateInProgress_def CreateFailed_def CreateComplete_def
  DeleteInProgress_def DeleteFailed_def DeleteComplete_def
  UpdateInProgress_def UpdateComplete_def UpdateFailed_def

lemmas errStatus_defs =
  errStatusNotFound_def errStatusEmpty_def errStatusUpToDate_def errStatusNotUpToDate_def

lemmas sentinel_defs =
  errPclusterCliNoChange_def errPClusterCliDryRun_def errPClusterCliInProgress_def

subsection \<open>Conditions\<close>

lemma filter_map_replace:
  "cond_Type new = t \<Longrightarrow>
   filter (\<lambda>c. cond_Type c = t) (map (\<lambda>c. if cond_Type c = t then new else c) cs) =
    map (\<lambda>c. new) (filter (\<lambda>c. cond_Type c = t) cs)"
  by (induction cs) auto

lemma GetCondition_SetCondition:
  "GetCondition (SetConditions cr [new]) (cond_Type new) = new"
proof (cases "\<exists>c \<in> set (Conditions cr). cond_Type c = cond_Type new")
  case True
  then have "filter (\<lambda>c. cond_Type c = cond_Type new) (Conditions cr) \<noteq> []"
    by (auto simp: filter_empty_conv)
  then obtain y ys where "filter (\<lambda>c. cond_Type c = cond_Type new) (Conditions cr) = y # ys"
    by (cases "filter (\<lambda>c. cond_Type c = cond_Type new) (Conditions cr)") auto
  with True show ?thesis
    by (simp add: GetCondition_def SetConditions_def SetCondition_def filter_map_replace)
next
  case False
  then have "filter (\<lambda>c. cond_Type c = cond_Type new) (Conditions cr) = []"
    by (auto simp: filter_empty_conv)
  with False show ?thesis
    by (simp add: GetCondition_def SetConditions_def SetCondition_def)
qed

lemma ready_Available: "ready (SetConditions cr [Available]) = ConditionTrue"
  using GetCondition_SetCondition [of cr Available] by (simp add: ready_def Available_def)

lemma ready_Unavailable: "ready (SetConditions cr [Unavailable]) = ConditionFalse"
  using GetCondition_SetCondition [of cr Unavailable] by (simp add: ready_def Unavailable_def)

lemma Conditions_setStatus: "Conditions (setStatus output cr) = Conditions cr"
  by (simp add: setStatus_def)

lemma ready_setStatus: "ready (setStatus output cr) = ready cr"
  by (simp add: ready_def GetCondition_def Conditions_setStatus)

subsection \<open>The status switch\<close>

lemma observeSwitch_exists:
  "observeSwitch (statusString s) eo cr = (eo', cr') \<Longrightarrow>
     ResourceExists eo' = fst (lifecycleTable s) \<and> ResourceUpToDate eo' = ResourceUpToDate eo"
  by (cases s) (auto simp: observeSwitch_def status_defs)

lemma observeSwitch_available:
  "observeSwitch (statusString s) eo cr = (eo', cr') \<Longrightarrow>
     availabilityMet (snd (lifecycleTable s)) cr cr'"
  by (cases s) (auto simp: observeSwitch_def status_defs ready_Available ready_Unavailable)

lemma availabilityMet_setStatus:
  assumes "availabilityMet a cr cr'"
  shows "availabilityMet a cr (setStatus output cr')"
proof (cases a)
  case (Becomes b)
  with assms show ?thesis by (cases b) (auto simp: ready_setStatus)
qed (use assms in \<open>auto simp: Conditions_setStatus\<close>)

subsection \<open>Running a command\<close>




subsection \<open>Classification of error payloads\<close>

lemma classString_inj: "classString a = classString b \<Longrightarrow> a = b"
  by (cases a; cases b) (simp_all add: errStatus_defs)

lemma getErrorStatus_classify:
  "getErrorStatus J cmdOutput clusterName =
     (case Unmarshal_errorOutput J cmdOutput zero_errorOutput of
        (Some err, pErr) \<Rightarrow> ([], Some err)
      | (None, pErr) \<Rightarrow> (classString (classify (Message pErr) clusterName), None))"
  by (simp add: getErrorStatus_def classify_def classifyRules_def notExistPrefix_def Let_def
      split: prod.splits option.splits)

lemma getErrorStatus_decoded:
  "Unmarshal_errorOutput J cmdOutput zero_errorOutput = (None, pErr) \<Longrightarrow>
   getErrorStatus J cmdOutput clusterName = (classString (classify (Message pErr) clusterName), None)"
  by (simp add: getErrorStatus_classify)

lemma getErrorStatus_malformed:
  "Unmarshal_errorOutput J cmdOutput zero_errorOutput = (Some err, pErr) \<Longrightarrow>
   getErrorStatus J cmdOutput clusterName = ([], Some err)"
  by (simp add: getErrorStatus_classify)

lemma classify_NotFound_iff:
  "classify m n = NotFound \<longleftrightarrow> prefix (notExistPrefix n) m"
  by (simp add: classify_def classifyRules_def notExistPrefix_def)

lemma quote_delimited_eq:
  "q \<notin> set xs \<Longrightarrow> q \<notin> set ys \<Longrightarrow> prefix (xs @ q # r1) (ys @ q # r2) \<Longrightarrow> xs = ys"
proof (induction xs arbitrary: ys)
  case Nil
  then show ?case by (cases ys) auto
next
  case (Cons x xs)
  then show ?case by (cases ys) auto
qed

lemma notExistPrefix_same_name:
  assumes "CHR 0x27 \<notin> set X" and "CHR 0x27 \<notin> set n"
    and "prefix (notExistPrefix X) m" and "prefix (notExistPrefix n) m"
  shows "X = n"
proof -
  from assms(3,4)
  have "prefix (notExistPrefix X) (notExistPrefix n) \<or> prefix (notExistPrefix n) (notExistPrefix X)"
    using prefix_same_cases by blast
  then show ?thesis
  proof
    assume "prefix (notExistPrefix X) (notExistPrefix n)"
    then have "prefix (X @ CHR 0x27 # '' does not exist'') (n @ CHR 0x27 # '' does not exist'')"
      by (simp add: notExistPrefix_def)
    with assms(1,2) show ?thesis by (rule quote_delimited_eq)
  next
    assume "prefix (notExistPrefix n) (notExistPrefix X)"
    then have "prefix (n @ CHR 0x27 # '' does not exist'') (X @ CHR 0x27 # '' does not exist'')"
      by (simp add: notExistPrefix_def)
    with assms(2,1) have "n = X" by (rule quote_delimited_eq)
    then show ?thesis by simp
  qed
qed

lemma notExist_no_sentinel:
  assumes "prefix (notExistPrefix X) m"
  shows "m \<noteq> errPclusterCliNoChange \<and> \<not> prefix errPClusterCliInProgress m \<and> m \<noteq> errPClusterCliDryRun"
  using assms by (auto simp: notExistPrefix_def sentinel_defs prefix_def)

lemma classify_other_name:
  assumes "prefix (notExistPrefix X) m" and "\<not> prefix (notExistPrefix n) m"
  shows "classify m n = EmptyOrUnclassified"
  using notExist_no_sentinel [OF assms(1)] assms(2)
  by (simp add: classify_def classifyRules_def notExistPrefix_def)

subsection \<open>Evaluating the scripted run\<close>

lemmas payload_defs =
  describeComplete_def describeFailed_def updateStarted_def createStarted_def deleteStarted_def
  msgNoChange_def msgDryRun_def msgNotFound_def msgNotFoundProd_def msgThrottled_def
  msgQuoted_def

lemmas zero_defs =
  zero_ExternalObservation_def zero_OutputCluster_def zero_DescribeClusterOutput_def
  zero_errorOutput_def zero_SchedulerType_def zero_CreateClusterOutput_def
  zero_UpdateClusterOutput_def zero_DeleteClusterOutput_def zero_ExternalCreation_def
  zero_ExternalUpdate_def

lemmas os_defs =
  os_Setenv_def os_MkdirTemp_def prefixAndSuffix_def joinPath_def os_TempDir_def
  os_Getenv_def os_LookupEnv_def path_exists_def os_Create_def os_Write_def
  os_RemoveAll_def os_Stat_def os_Environ_def

lemmas run_defs =
  testClient_def testCluster_def testWorld_def testJson_def scripted_def exitError_def
  syntaxError_def clusterOf_def payload_defs zero_defs os_defs status_defs sentinel_defs
  errStatus_defs notExistPrefix_def clusterConfigFileName_def
  execPcluster_def createTempDir_def writeConfigToFile_def execute_def
  describeArgs_def probeArgs_def createArgs_def updateArgs_def deleteArgs_def
  getErrorStatus_def isUpToDate_def unmarshalDescribe_def observeSwitch_def Let_def

subsection \<open>The classifier\<close>

text \<open>
  C4. \<^verbatim>\<open>getErrorStatus\<close> decodes the output as an error payload and hands a decode
  error on; otherwise the message is classified by the ordered rules of the
  specification, the first match deciding: the not-exist prefix for this resource name,
  then the no-changes sentinel or the in-progress prefix, then the dry-run sentinel, and
  unclassified for everything else.
\<close>

theorem getErrorStatus_priority:
  "getErrorStatus J cmdOutput resourceName =
     (case Unmarshal_errorOutput J cmdOutput zero_errorOutput of
        (Some err, pErr) \<Rightarrow> ([], Some err)
      | (None, pErr) \<Rightarrow> (classString (classify (Message pErr) resourceName), None))"
  by (rule getErrorStatus_classify)

theorem getErrorStatus_priority_witness:
  "getErrorStatus testJson msgNoChange ''test'' = (classString UpToDate, None)
   \<and> getErrorStatus testJson msgDryRun ''test'' = (classString NotUpToDate, None)
   \<and> getErrorStatus testJson msgNotFound ''test'' = (classString NotFound, None)
   \<and> getErrorStatus testJson msgThrottled ''test'' = (classString EmptyOrUnclassified, None)
   \<and> getErrorStatus testJson ''not json'' ''test'' = ([], Some syntaxError)"
proof -
  have d: "Unmarshal_errorOutput testJson msgNoChange zero_errorOutput
             = (None, \<lparr>Message = errPclusterCliNoChange\<rparr>)"
    "Unmarshal_errorOutput testJson msgDryRun zero_errorOutput
             = (None, \<lparr>Message = errPClusterCliDryRun\<rparr>)"
    "Unmarshal_errorOutput testJson msgNotFound zero_errorOutput
             = (None, \<lparr>Message = notExistPrefix ''test''\<rparr>)"
    "Unmarshal_errorOutput testJson msgThrottled zero_errorOutput
             = (None, \<lparr>Message = ''Rate exceeded''\<rparr>)"
    "Unmarshal_errorOutput testJson ''not json'' zero_errorOutput
             = (Some syntaxError, \<lparr>Message = []\<rparr>)"
    by (simp_all add: testJson_def payload_defs zero_errorOutput_def)
  have c: "classify errPclusterCliNoChange ''test'' = UpToDate"
    "classify errPClusterCliDryRun ''test'' = NotUpToDate"
    "classify (notExistPrefix ''test'') ''test'' = NotFound"
    "classify ''Rate exceeded'' ''test'' = EmptyOrUnclassified"
    by (simp_all add: classify_def classifyRules_def sentinel_defs notExistPrefix_def)
  show ?thesis
    using getErrorStatus_priority [of testJson msgNoChange "''test''"]
      getErrorStatus_priority [of testJson msgDryRun "''test''"]
      getErrorStatus_priority [of testJson msgNotFound "''test''"]
      getErrorStatus_priority [of testJson msgThrottled "''test''"]
      getErrorStatus_priority [of testJson "''not json''" "''test''"]
    by (simp add: d c)
qed

text \<open>
  C10, as amended. For a decoded payload whose message begins with the not-exist sentence
  for a name \<open>X\<close>, where neither \<open>X\<close> nor the resource name holds a single quote: the
  classification is \<^verbatim>\<open>NotFound\<close> exactly when \<open>X\<close> is the resource name, and unclassified
  otherwise; \<^verbatim>\<open>Observe\<close> then turns a failed describe with another cluster's name into a
  failure.
\<close>

theorem notFound_name_sensitive:
  assumes "Unmarshal_errorOutput J output zero_errorOutput = (None, pErr)"
    and "prefix (notExistPrefix X) (Message pErr)"
    and "CHR 0x27 \<notin> set X" and "CHR 0x27 \<notin> set (Name cr)"
  shows "(getErrorStatus J output (Name cr) = (errStatusNotFound, None) \<longleftrightarrow> X = Name cr)
    \<and> (X \<noteq> Name cr \<longrightarrow> getErrorStatus J output (Name cr) = (errStatusEmpty, None))
    \<and> (X \<noteq> Name cr \<longrightarrow>
         (\<forall>c w err w1. execPcluster c cr (describeArgs cr) w = ((output, Some err), w1) \<longrightarrow>
            fst (Observe J c (IsCluster cr) w) =
              (zero_ExternalObservation,
               Some (Wrap (''failed to run pcluster command: '' @ output) err))))"
proof -
  have same: "getErrorStatus J output (Name cr) = (errStatusNotFound, None)" if "X = Name cr"
  proof -
    from that assms(2) have "classify (Message pErr) (Name cr) = NotFound"
      by (simp add: classify_NotFound_iff)
    with assms(1) show ?thesis by (simp add: getErrorStatus_decoded)
  qed
  have other: "getErrorStatus J output (Name cr) = (errStatusEmpty, None)" if "X \<noteq> Name cr"
  proof -
    have "\<not> prefix (notExistPrefix (Name cr)) (Message pErr)"
      using notExistPrefix_same_name [OF assms(3,4) assms(2)] that by blast
    with assms(2) have "classify (Message pErr) (Name cr) = EmptyOrUnclassified"
      by (rule classify_other_name)
    with assms(1) show ?thesis by (simp add: getErrorStatus_decoded)
  qed
  have iff: "getErrorStatus J output (Name cr) = (errStatusNotFound, None) \<longleftrightarrow> X = Name cr"
  proof
    assume found: "getErrorStatus J output (Name cr) = (errStatusNotFound, None)"
    show "X = Name cr"
    proof (rule ccontr)
      assume "X \<noteq> Name cr"
      from other [OF this] found show False by (simp add: errStatus_defs)
    qed
  next
    assume "X = Name cr"
    then show "getErrorStatus J output (Name cr) = (errStatusNotFound, None)" by (rule same)
  qed
  have obs: "fst (Observe J c (IsCluster cr) w) =
       (zero_ExternalObservation, Some (Wrap (''failed to run pcluster command: '' @ output) err))"
    if "X \<noteq> Name cr" and "execPcluster c cr (describeArgs cr) w = ((output, Some err), w1)"
    for c w err w1
    using other [OF that(1)] that(2) by (simp add: Observe_def errStatus_defs)
  from iff other obs show ?thesis by blast
qed

theorem notFound_name_sensitive_witness:
  "Unmarshal_errorOutput testJson msgNotFoundProd zero_errorOutput
      = (None, \<lparr>Message = notExistPrefix ''prod''\<rparr>)
   \<and> prefix (notExistPrefix ''prod'') (notExistPrefix ''prod'')
   \<and> CHR 0x27 \<notin> set ''prod'' \<and> CHR 0x27 \<notin> set (Name testCluster)
   \<and> ''prod'' \<noteq> Name testCluster
   \<and> getErrorStatus testJson msgNotFoundProd (Name testCluster) = (errStatusEmpty, None)"
proof -
  have h1: "Unmarshal_errorOutput testJson msgNotFoundProd zero_errorOutput
      = (None, \<lparr>Message = notExistPrefix ''prod''\<rparr>)"
    by (simp add: testJson_def payload_defs zero_errorOutput_def)
  have h2: "prefix (notExistPrefix ''prod'') (Message \<lparr>Message = notExistPrefix ''prod''\<rparr>)"
    by simp
  have h3: "CHR 0x27 \<notin> set ''prod''" by simp
  have h4: "CHR 0x27 \<notin> set (Name testCluster)" by (simp add: testCluster_def)
  have h5: "''prod'' \<noteq> Name testCluster" by (simp add: testCluster_def)
  from notFound_name_sensitive [OF h1 h2 h3 h4] h1 h3 h4 h5 show ?thesis by simp
qed

text \<open>
  The claim as it was worded fails where a name holds a quote: the message names the
  cluster \<^verbatim>\<open>test' does not exist\<close>, which is not \<^verbatim>\<open>test\<close>, and is classified as the
  absence of \<^verbatim>\<open>test\<close>.
\<close>

theorem notFound_name_counterexample:
  "Unmarshal_errorOutput testJson msgQuoted zero_errorOutput
      = (None, \<lparr>Message = notExistPrefix (''test'' @ [CHR 0x27] @ '' does not exist'')\<rparr>)
   \<and> ''test'' @ [CHR 0x27] @ '' does not exist'' \<noteq> ''test''
   \<and> getErrorStatus testJson msgQuoted ''test'' = (errStatusNotFound, None)"
  by (simp add: testJson_def payload_defs zero_errorOutput_def getErrorStatus_def
      notExistPrefix_def errStatus_defs)

subsection \<open>Observe\<close>

lemma observeSwitch_upToDate:
  "observeSwitch st eo cr = (eo', cr') \<Longrightarrow> ResourceUpToDate eo' = ResourceUpToDate eo"
  by (auto simp: observeSwitch_def split: if_splits)

lemma Observe_decoded:
  assumes "execPcluster c cr (describeArgs cr) w = ((output, None), w1)"
    and "unmarshalDescribe J output = (describeOutput, None)"
    and "isUpToDate J c cr w1 = ((upToDate, None), c2, w2)"
    and "observeSwitch (oc_ClusterStatus (do_OutputCluster describeOutput))
           (zero_ExternalObservation\<lparr>ResourceUpToDate := upToDate\<rparr>) cr = (eo, cr1)"
  shows "Observe J c (IsCluster cr) w =
           ((eo, None), c2, IsCluster (setStatus (do_OutputCluster describeOutput) cr1), w2)"
  using assms by (simp add: Observe_def)

lemma Observe_probe_failed:
  assumes "execPcluster c cr (describeArgs cr) w = ((output, None), w1)"
    and "unmarshalDescribe J output = (describeOutput, None)"
    and "isUpToDate J c cr w1 = ((upToDate, Some err), c2, w2)"
  shows "Observe J c (IsCluster cr) w =
           ((zero_ExternalObservation,
             Some (Wrap ''could not determine if resource is up-to-date'' err)),
            c2, IsCluster cr, w2)"
  using assms by (simp add: Observe_def)

text \<open>
  C1, as amended. When the describe command succeeds and its payload decodes to one of
  the nine lifecycle statuses, \<^verbatim>\<open>Observe\<close> first runs the up-to-date probe. If the
  probe gives a verdict, \<^verbatim>\<open>Observe\<close> returns an observation, and its \<open>exists\<close> and the
  resource's availability are those of the table: in progress gives \<open>exists\<close> with the
  conditions untouched, complete gives \<open>exists\<close> and available, \<^verbatim>\<open>CreateFailed\<close> and
  \<^verbatim>\<open>DeleteComplete\<close> give not \<open>exists\<close>, \<^verbatim>\<open>UpdateFailed\<close> and \<^verbatim>\<open>DeleteFailed\<close> give
  \<open>exists\<close> and unavailable. If the probe fails, \<^verbatim>\<open>Observe\<close> returns that failure and
  no observation, and the resource stays as it was, whatever the status.
\<close>

theorem Observe_lifecycle_table:
  assumes "execPcluster c cr (describeArgs cr) w = ((output, None), w1)"
    and "unmarshalDescribe J output = (describeOutput, None)"
    and "oc_ClusterStatus (do_OutputCluster describeOutput) = statusString s"
  shows "(\<forall>upToDate c2 w2. isUpToDate J c cr w1 = ((upToDate, None), c2, w2) \<longrightarrow>
            (\<exists>eo cr'. Observe J c (IsCluster cr) w = ((eo, None), c2, IsCluster cr', w2)
                \<and> ResourceExists eo = fst (lifecycleTable s)
                \<and> availabilityMet (snd (lifecycleTable s)) cr cr'))
     \<and> (\<forall>upToDate err c2 w2. isUpToDate J c cr w1 = ((upToDate, Some err), c2, w2) \<longrightarrow>
            Observe J c (IsCluster cr) w =
              ((zero_ExternalObservation,
                Some (Wrap ''could not determine if resource is up-to-date'' err)),
               c2, IsCluster cr, w2))"
proof -
  have verdict: "\<exists>eo cr'. Observe J c (IsCluster cr) w = ((eo, None), c2, IsCluster cr', w2)
                \<and> ResourceExists eo = fst (lifecycleTable s)
                \<and> availabilityMet (snd (lifecycleTable s)) cr cr'"
    if probe: "isUpToDate J c cr w1 = ((upToDate, None), c2, w2)" for upToDate c2 w2
  proof -
    obtain eo cr1 where sw: "observeSwitch (statusString s)
        (zero_ExternalObservation\<lparr>ResourceUpToDate := upToDate\<rparr>) cr = (eo, cr1)"
      by (metis prod.exhaust)
    from sw assms(3) have sw': "observeSwitch (oc_ClusterStatus (do_OutputCluster describeOutput))
        (zero_ExternalObservation\<lparr>ResourceUpToDate := upToDate\<rparr>) cr = (eo, cr1)"
      by simp
    have run: "Observe J c (IsCluster cr) w =
        ((eo, None), c2, IsCluster (setStatus (do_OutputCluster describeOutput) cr1), w2)"
      by (rule Observe_decoded [OF assms(1,2) probe sw'])
    from observeSwitch_exists [OF sw]
    have ex: "ResourceExists eo = fst (lifecycleTable s)" by simp
    from availabilityMet_setStatus [OF observeSwitch_available [OF sw]]
    have av: "availabilityMet (snd (lifecycleTable s)) cr
        (setStatus (do_OutputCluster describeOutput) cr1)" .
    from run ex av show ?thesis by blast
  qed
  have failure: "Observe J c (IsCluster cr) w =
              ((zero_ExternalObservation,
                Some (Wrap ''could not determine if resource is up-to-date'' err)),
               c2, IsCluster cr, w2)"
    if "isUpToDate J c cr w1 = ((upToDate, Some err), c2, w2)" for upToDate err c2 w2
    by (rule Observe_probe_failed [OF assms(1,2) that])
  from verdict failure show ?thesis by blast
qed

theorem Observe_lifecycle_table_witness:
  "fst (execPcluster (testClient [(describeComplete, None), (msgNoChange, Some exitError)])
          testCluster (describeArgs testCluster) testWorld) = (describeComplete, None)
   \<and> unmarshalDescribe testJson describeComplete =
        (zero_DescribeClusterOutput\<lparr>do_OutputCluster := clusterOf CreateComplete\<rparr>, None)
   \<and> oc_ClusterStatus (clusterOf CreateComplete) = statusString RCreateComplete
   \<and> fst (isUpToDate testJson (testClient [(describeComplete, None), (msgNoChange, Some exitError)])
            testCluster
            (snd (execPcluster (testClient [(describeComplete, None), (msgNoChange, Some exitError)])
                    testCluster (describeArgs testCluster) testWorld))) = (True, None)
   \<and> (\<exists>eo cr'. fst (Observe testJson
                      (testClient [(describeComplete, None), (msgNoChange, Some exitError)])
                      (IsCluster testCluster) testWorld) = (eo, None)
          \<and> fst (snd (snd (Observe testJson
                      (testClient [(describeComplete, None), (msgNoChange, Some exitError)])
                      (IsCluster testCluster) testWorld))) = IsCluster cr'
          \<and> ResourceExists eo \<and> ready cr' = ConditionTrue)"
proof -
  let ?c = "testClient [(describeComplete, None), (msgNoChange, Some exitError)]"
  let ?r = "Observe testJson ?c (IsCluster testCluster) testWorld"
  let ?x = "execPcluster ?c testCluster (describeArgs testCluster) testWorld"
  let ?d = "zero_DescribeClusterOutput\<lparr>do_OutputCluster := clusterOf CreateComplete\<rparr>"
  let ?p = "isUpToDate testJson ?c testCluster (snd ?x)"
  have x: "fst ?x = (describeComplete, None)" by (simp add: run_defs)
  then have h1: "?x = ((describeComplete, None), snd ?x)" by (metis prod.collapse)
  have h2: "unmarshalDescribe testJson describeComplete = (?d, None)"
    by (simp add: unmarshalDescribe_def testJson_def payload_defs)
  have h3: "oc_ClusterStatus (do_OutputCluster ?d) = statusString RCreateComplete"
    by (simp add: clusterOf_def)
  have p: "fst ?p = (True, None)" by (simp add: run_defs)
  then have h4: "?p = ((True, None), fst (snd ?p), snd (snd ?p))" by (metis prod.collapse)
  from Observe_lifecycle_table [OF h1 h2 h3] h4
  obtain eo cr' where o: "?r = ((eo, None), fst (snd ?p), IsCluster cr', snd (snd ?p))"
    and e: "ResourceExists eo = fst (lifecycleTable RCreateComplete)"
    and a: "availabilityMet (snd (lifecycleTable RCreateComplete)) testCluster cr'"
    by blast
  from o e a have "\<exists>eo cr'. fst ?r = (eo, None) \<and> fst (snd (snd ?r)) = IsCluster cr'
      \<and> ResourceExists eo \<and> ready cr' = ConditionTrue"
    by simp
  with x h2 h3 p show ?thesis by simp
qed

text \<open>
  The claim as it was worded fails where the probe fails: the describe payload decodes to
  \<^verbatim>\<open>CREATE_COMPLETE\<close>, for which the table says \<open>exists\<close> and available, the dry run
  then fails without output, and \<^verbatim>\<open>Observe\<close> returns an error with the zero observation
  and leaves the resource without a \<^verbatim>\<open>Ready\<close> condition.
\<close>

theorem Observe_probe_failure_counterexample:
  "unmarshalDescribe testJson describeComplete =
        (zero_DescribeClusterOutput\<lparr>do_OutputCluster := clusterOf CreateComplete\<rparr>, None)
   \<and> oc_ClusterStatus (clusterOf CreateComplete) = statusString RCreateComplete
   \<and> lifecycleTable RCreateComplete = (True, Becomes True)
   \<and> fst (Observe testJson (testClient [(describeComplete, None), ([], Some exitError)])
            (IsCluster testCluster) testWorld)
        = (\<lparr>ResourceExists = False, ResourceUpToDate = False\<rparr>,
           Some (Wrap ''could not determine if resource is up-to-date'' exitError))
   \<and> fst (snd (snd (Observe testJson (testClient [(describeComplete, None), ([], Some exitError)])
            (IsCluster testCluster) testWorld))) = IsCluster testCluster
   \<and> ready testCluster = ConditionUnknown"
  by (simp add: Observe_def run_defs ready_def GetCondition_def)

text \<open>
  C3, as amended. Once the describe payload has decoded, \<^verbatim>\<open>Observe\<close> runs the
  up-to-date probe before it looks at the status, for every status; when the probe gives
  a verdict the observation carries it as \<open>upToDate\<close>, also when the status is
  \<^verbatim>\<open>CreateFailed\<close> or \<^verbatim>\<open>DeleteComplete\<close> and \<open>exists\<close> is false, and the client and
  the world returned are those the probe left.
\<close>

theorem Observe_probe_unconditional:
  assumes "execPcluster c cr (describeArgs cr) w = ((output, None), w1)"
    and "unmarshalDescribe J output = (describeOutput, None)"
    and "isUpToDate J c cr w1 = ((upToDate, None), c2, w2)"
  shows "\<exists>eo mg'. Observe J c (IsCluster cr) w = ((eo, None), c2, mg', w2)
            \<and> ResourceUpToDate eo = upToDate
            \<and> (oc_ClusterStatus (do_OutputCluster describeOutput) = CreateFailed
                 \<or> oc_ClusterStatus (do_OutputCluster describeOutput) = DeleteComplete
               \<longrightarrow> \<not> ResourceExists eo)"
proof -
  obtain eo cr1 where sw: "observeSwitch (oc_ClusterStatus (do_OutputCluster describeOutput))
      (zero_ExternalObservation\<lparr>ResourceUpToDate := upToDate\<rparr>) cr = (eo, cr1)"
    by (metis prod.exhaust)
  from observeSwitch_upToDate [OF sw] have u: "ResourceUpToDate eo = upToDate"
    by (simp add: zero_ExternalObservation_def)
  from sw have e: "oc_ClusterStatus (do_OutputCluster describeOutput) = CreateFailed
                 \<or> oc_ClusterStatus (do_OutputCluster describeOutput) = DeleteComplete
               \<longrightarrow> \<not> ResourceExists eo"
    by (auto simp: observeSwitch_def status_defs)
  from Observe_decoded [OF assms sw] u e show ?thesis by blast
qed

theorem Observe_probe_unconditional_witness:
  "fst (execPcluster (testClient [(describeFailed, None), (msgNoChange, Some exitError)])
          testCluster (describeArgs testCluster) testWorld) = (describeFailed, None)
   \<and> unmarshalDescribe testJson describeFailed =
        (zero_DescribeClusterOutput\<lparr>do_OutputCluster := clusterOf CreateFailed\<rparr>, None)
   \<and> fst (isUpToDate testJson (testClient [(describeFailed, None), (msgNoChange, Some exitError)])
            testCluster
            (snd (execPcluster (testClient [(describeFailed, None), (msgNoChange, Some exitError)])
                    testCluster (describeArgs testCluster) testWorld))) = (True, None)
   \<and> (\<exists>eo. fst (Observe testJson
                   (testClient [(describeFailed, None), (msgNoChange, Some exitError)])
                   (IsCluster testCluster) testWorld) = (eo, None)
           \<and> ResourceUpToDate eo \<and> \<not> ResourceExists eo)"
proof -
  let ?c = "testClient [(describeFailed, None), (msgNoChange, Some exitError)]"
  let ?x = "execPcluster ?c testCluster (describeArgs testCluster) testWorld"
  let ?d = "zero_DescribeClusterOutput\<lparr>do_OutputCluster := clusterOf CreateFailed\<rparr>"
  let ?p = "isUpToDate testJson ?c testCluster (snd ?x)"
  have x: "fst ?x = (describeFailed, None)" by (simp add: run_defs)
  then have h1: "?x = ((describeFailed, None), snd ?x)" by (metis prod.collapse)
  have h2: "unmarshalDescribe testJson describeFailed = (?d, None)"
    by (simp add: unmarshalDescribe_def testJson_def payload_defs)
  have p: "fst ?p = (True, None)" by (simp add: run_defs)
  then have h3: "?p = ((True, None), fst (snd ?p), snd (snd ?p))" by (metis prod.collapse)
  have st: "oc_ClusterStatus (do_OutputCluster ?d) = CreateFailed" by (simp add: clusterOf_def)
  from Observe_probe_unconditional [OF h1 h2 h3] st
  have "\<exists>eo. fst (Observe testJson ?c (IsCluster testCluster) testWorld) = (eo, None)
           \<and> ResourceUpToDate eo \<and> \<not> ResourceExists eo"
    by auto
  with x h2 p show ?thesis by simp
qed

text \<open>
  The claim as it was worded fails on a cluster whose creation failed and whose
  configuration has no changes: the probe is run, and the observation says the resource
  does not exist and is up to date.
\<close>

theorem Observe_absent_upToDate_counterexample:
  "fst (Observe testJson (testClient [(describeFailed, None), (msgNoChange, Some exitError)])
          (IsCluster testCluster) testWorld)
     = (\<lparr>ResourceExists = False, ResourceUpToDate = True\<rparr>, None)
   \<and> map args (calls (snd (snd (snd (Observe testJson
          (testClient [(describeFailed, None), (msgNoChange, Some exitError)])
          (IsCluster testCluster) testWorld)))))
     = [describeArgs testCluster, probeArgs testCluster]"
  by (simp add: Observe_def run_defs)

text \<open>
  C5. When the describe command fails, \<^verbatim>\<open>Observe\<close> classifies what the command printed:
  the classification \<^verbatim>\<open>NotFound\<close> gives the observation \<open>exists = false\<close> and no error; any
  other classification, and a payload that does not decode, give a failure that wraps the
  command's error. The resource and the client are left as they were.
\<close>

theorem Observe_describe_failed:
  assumes "execPcluster c cr (describeArgs cr) w = ((output, Some err), w1)"
  shows "Observe J c (IsCluster cr) w =
     (case Unmarshal_errorOutput J output zero_errorOutput of
        (None, pErr) \<Rightarrow>
          if classify (Message pErr) (Name cr) = NotFound
          then ((\<lparr>ResourceExists = False, ResourceUpToDate = False\<rparr>, None), c, IsCluster cr, w1)
          else ((zero_ExternalObservation,
                 Some (Wrap (''failed to run pcluster command: '' @ output) err)),
                c, IsCluster cr, w1)
      | (Some decodeErr, pErr) \<Rightarrow>
          ((zero_ExternalObservation,
            Some (Wrap (''failed to run pcluster command: '' @ output) err)),
           c, IsCluster cr, w1))"
proof (cases "Unmarshal_errorOutput J output zero_errorOutput")
  case (Pair derr pErr)
  show ?thesis
  proof (cases derr)
    case None
    with Pair have g: "getErrorStatus J output (Name cr)
        = (classString (classify (Message pErr) (Name cr)), None)"
      by (simp add: getErrorStatus_decoded)
    have "classString (classify (Message pErr) (Name cr)) = errStatusNotFound
        \<longleftrightarrow> classify (Message pErr) (Name cr) = NotFound"
      using classString_inj [of "classify (Message pErr) (Name cr)" NotFound] by auto
    with assms g Pair None show ?thesis
      by (simp add: Observe_def zero_ExternalObservation_def)
  next
    case (Some decodeErr)
    with Pair have "getErrorStatus J output (Name cr) = ([], Some decodeErr)"
      by (simp add: getErrorStatus_malformed)
    with assms Pair Some show ?thesis by (simp add: Observe_def errStatus_defs)
  qed
qed

theorem Observe_describe_failed_witness:
  "fst (execPcluster (testClient [(msgNotFound, Some exitError)]) testCluster
          (describeArgs testCluster) testWorld) = (msgNotFound, Some exitError)
   \<and> fst (Observe testJson (testClient [(msgNotFound, Some exitError)])
            (IsCluster testCluster) testWorld)
        = (\<lparr>ResourceExists = False, ResourceUpToDate = False\<rparr>, None)
   \<and> fst (execPcluster (testClient [(msgThrottled, Some exitError)]) testCluster
          (describeArgs testCluster) testWorld) = (msgThrottled, Some exitError)
   \<and> snd (fst (Observe testJson (testClient [(msgThrottled, Some exitError)])
            (IsCluster testCluster) testWorld))
        = Some (Wrap (''failed to run pcluster command: '' @ msgThrottled) exitError)"
proof -
  let ?c = "testClient [(msgNotFound, Some exitError)]"
  let ?x = "execPcluster ?c testCluster (describeArgs testCluster) testWorld"
  let ?c2 = "testClient [(msgThrottled, Some exitError)]"
  let ?x2 = "execPcluster ?c2 testCluster (describeArgs testCluster) testWorld"
  have x: "fst ?x = (msgNotFound, Some exitError)" by (simp add: run_defs)
  then have h: "?x = ((msgNotFound, Some exitError), snd ?x)" by (metis prod.collapse)
  have x2: "fst ?x2 = (msgThrottled, Some exitError)" by (simp add: run_defs)
  then have h2: "?x2 = ((msgThrottled, Some exitError), snd ?x2)" by (metis prod.collapse)
  have d: "Unmarshal_errorOutput testJson msgNotFound zero_errorOutput
             = (None, \<lparr>Message = notExistPrefix ''test''\<rparr>)"
    "Unmarshal_errorOutput testJson msgThrottled zero_errorOutput
             = (None, \<lparr>Message = ''Rate exceeded''\<rparr>)"
    by (simp_all add: testJson_def payload_defs zero_errorOutput_def)
  have k: "classify (notExistPrefix ''test'') (Name testCluster) = NotFound"
    "classify ''Rate exceeded'' (Name testCluster) = EmptyOrUnclassified"
    by (simp_all add: classify_def classifyRules_def sentinel_defs notExistPrefix_def
        testCluster_def)
  from Observe_describe_failed [OF h, of testJson] Observe_describe_failed [OF h2, of testJson]
    x x2 show ?thesis
    by (simp add: d k)
qed

subsection \<open>The up-to-date probe\<close>

text \<open>
  C2, as amended. After the dry-run command: a zero exit gives \<open>upToDate = false\<close> and no
  failure; a failure without output gives the command's error; otherwise the output is
  classified, a payload that does not decode gives the decode error, the classification
  \<^verbatim>\<open>UpToDate\<close> gives \<open>true\<close>, and every other classification (\<^verbatim>\<open>NotUpToDate\<close>,
  \<^verbatim>\<open>NotFound\<close>, unclassified) gives \<open>false\<close> and no failure.
\<close>

theorem isUpToDate_verdict:
  assumes "execute c cr (probeArgs cr) w = ((output, err), c1, w1)"
  shows "isUpToDate J c cr w =
     ((if err = None then (False, None)
       else if output = [] then (False, err)
       else case Unmarshal_errorOutput J output zero_errorOutput of
              (Some sErr, pErr) \<Rightarrow> (False, Some sErr)
            | (None, pErr) \<Rightarrow> (classify (Message pErr) (Name cr) = UpToDate, None)),
      c1, w1)"
proof -
  have "classString k = errStatusUpToDate \<longleftrightarrow> k = UpToDate" for k
    using classString_inj [of k UpToDate] by auto
  with assms show ?thesis
    by (auto simp: isUpToDate_def getErrorStatus_classify split: prod.splits option.splits)
qed

theorem isUpToDate_verdict_witness:
  "fst (execute (testClient [(msgNoChange, Some exitError)]) testCluster
          (probeArgs testCluster) testWorld) = (msgNoChange, Some exitError)
   \<and> fst (isUpToDate testJson (testClient [(msgNoChange, Some exitError)]) testCluster testWorld)
        = (True, None)
   \<and> fst (execute (testClient [(msgDryRun, Some exitError)]) testCluster
          (probeArgs testCluster) testWorld) = (msgDryRun, Some exitError)
   \<and> fst (isUpToDate testJson (testClient [(msgDryRun, Some exitError)]) testCluster testWorld)
        = (False, None)"
proof -
  let ?c = "testClient [(msgNoChange, Some exitError)]"
  let ?x = "execute ?c testCluster (probeArgs testCluster) testWorld"
  let ?c2 = "testClient [(msgDryRun, Some exitError)]"
  let ?x2 = "execute ?c2 testCluster (probeArgs testCluster) testWorld"
  have x: "fst ?x = (msgNoChange, Some exitError)" by (simp add: run_defs)
  then have h: "?x = ((msgNoChange, Some exitError), fst (snd ?x), snd (snd ?x))"
    by (metis prod.collapse)
  have x2: "fst ?x2 = (msgDryRun, Some exitError)" by (simp add: run_defs)
  then have h2: "?x2 = ((msgDryRun, Some exitError), fst (snd ?x2), snd (snd ?x2))"
    by (metis prod.collapse)
  have d: "Unmarshal_errorOutput testJson msgNoChange zero_errorOutput
             = (None, \<lparr>Message = errPclusterCliNoChange\<rparr>)"
    "Unmarshal_errorOutput testJson msgDryRun zero_errorOutput
             = (None, \<lparr>Message = errPClusterCliDryRun\<rparr>)"
    by (simp_all add: testJson_def payload_defs zero_errorOutput_def)
  have k: "classify errPclusterCliNoChange (Name testCluster) = UpToDate"
    "classify errPClusterCliDryRun (Name testCluster) = NotUpToDate"
    by (simp_all add: classify_def classifyRules_def sentinel_defs notExistPrefix_def
        testCluster_def)
  have n: "msgNoChange \<noteq> []" "msgDryRun \<noteq> []" by (simp_all add: payload_defs)
  from isUpToDate_verdict [OF h, of testJson] isUpToDate_verdict [OF h2, of testJson] x x2
  show ?thesis by (simp add: d k n)
qed

text \<open>
  The claim as it was worded fails twice: a dry run that ends with a non-zero exit and an
  unclassified message, and a dry run that ends with exit code zero, both give
  \<open>upToDate = false\<close> with no failure.
\<close>

theorem isUpToDate_silent_counterexample:
  "fst (execute (testClient [(msgThrottled, Some exitError)]) testCluster
          (probeArgs testCluster) testWorld) = (msgThrottled, Some exitError)
   \<and> getErrorStatus testJson msgThrottled (Name testCluster) = (errStatusEmpty, None)
   \<and> fst (isUpToDate testJson (testClient [(msgThrottled, Some exitError)]) testCluster testWorld)
        = (False, None)
   \<and> fst (execute (testClient [(msgNoChange, None)]) testCluster
          (probeArgs testCluster) testWorld) = (msgNoChange, None)
   \<and> fst (isUpToDate testJson (testClient [(msgNoChange, None)]) testCluster testWorld)
        = (False, None)"
  by (simp add: run_defs)

subsection \<open>The command surface\<close>

text \<open>
  C8. At the cluster of the tests (name \<^verbatim>\<open>test\<close>, region \<^verbatim>\<open>us-eastish\<close>) the probe runs
  \<^verbatim>\<open>update-cluster --dryrun true --cluster-name test --cluster-configuration
  cluster-config.yaml\<close>: the name is passed as it is, the region is not passed at all,
  while \<^verbatim>\<open>Update\<close> for the same resource passes \<^verbatim>\<open>--region us-eastish\<close>.
\<close>

theorem probe_command_at_test:
  "map args (calls (snd (snd (isUpToDate testJson (testClient [(msgNoChange, Some exitError)])
       testCluster testWorld))))
     = [[''update-cluster'', ''--dryrun'', ''true'', ''--cluster-name'', ''test'',
         ''--cluster-configuration'', ''cluster-config.yaml'']]
   \<and> ''--region'' \<notin> set (probeArgs testCluster)
   \<and> map args (calls (snd (snd (snd (Update testJson (testClient [(updateStarted, None)])
       (IsCluster testCluster) testWorld)))))
     = [[''update-cluster'', ''--cluster-configuration'', ''cluster-config.yaml'',
         ''--cluster-name'', ''test'', ''--region'', ''us-eastish'']]"
  by (simp add: Update_def run_defs)

subsection \<open>Create, Update and Delete\<close>










subsection \<open>The process environment\<close>





subsection \<open>The workspace\<close>





















end
